theory Spec2Isabelle
  imports Main "HOL-Library.Word"
begin

section \<open>The ToskaMesh Go runtime SDK: options, metadata and the service lifecycle\<close>

text \<open>
  A shallow embedding of \<^verbatim>\<open>pkg/runtime/options.go\<close> and \<^verbatim>\<open>pkg/runtime/mesh.go\<close>.
  Go strings are \<open>string\<close>, Go's \<^verbatim>\<open>int\<close> and \<^verbatim>\<open>time.Duration\<close> (nanoseconds) are \<open>int\<close>
  (no arithmetic is done on them in this package, so wrap-around never arises), a
  \<^verbatim>\<open>map[string]string\<close> is a map \<open>string \<rightharpoonup> string\<close>, and an \<^verbatim>\<open>error\<close> is its message.
\<close>

subsection \<open>Errors and decimal formatting\<close>

datatype error = Err string

text \<open>\<^verbatim>\<open>strconv.Itoa\<close>: the decimal digits, with a leading minus sign for a negative number.\<close>

definition digit_char :: "int \<Rightarrow> char" where
  "digit_char d = char_of (48 + d)"

function formatBits :: "int \<Rightarrow> string" where
  "formatBits n = (if n < 10 then [digit_char n] else formatBits (n div 10) @ [digit_char (n mod 10)])"
  by pat_completeness auto
termination
  by (relation "measure nat") auto

declare formatBits.simps [simp del]

definition Itoa :: "int \<Rightarrow> string" where
  "Itoa i = (if i < 0 then CHR ''-'' # formatBits (- i) else formatBits i)"

subsection \<open>options.go\<close>

type_synonym LoadBalancingStrategy = string

definition RoundRobin :: LoadBalancingStrategy where "RoundRobin = ''RoundRobin''"
definition LeastConnections :: LoadBalancingStrategy where "LeastConnections = ''LeastConnections''"
definition Random :: LoadBalancingStrategy where "Random = ''Random''"
definition WeightedRoundRobin :: LoadBalancingStrategy where "WeightedRoundRobin = ''WeightedRoundRobin''"
definition IPHash :: LoadBalancingStrategy where "IPHash = ''IPHash''"

record RoutingOptions =
  Scheme :: string
  HealthCheckEndpoint :: string
  Strategy :: LoadBalancingStrategy
  Weight :: int

record ServiceOptions =
  ServiceName :: string
  ServiceID :: string
  Address :: string
  AdvertisedAddress :: string
  Port :: int
  HealthEndpoint :: string
  HealthInterval :: int
  HealthTimeout :: int
  UnhealthyThreshold :: int
  HeartbeatEnabled :: bool
  AutoRegister :: bool
  DiscoveryAddress :: string
  Metadata :: "string \<rightharpoonup> string"
  Routing :: RoutingOptions

text \<open>
  An \<^verbatim>\<open>Option\<close> is a \<^verbatim>\<open>func(*ServiceOptions)\<close>: it reads and mutates the options in
  progress, so it is a function from the options to the updated options.
\<close>

type_synonym Option = "ServiceOptions \<Rightarrow> ServiceOptions"

definition Second :: int where
  "Second = 1000000000"

definition DefaultOptions :: ServiceOptions where
  "DefaultOptions = \<lparr>
     ServiceName = ''mesh-service'',
     ServiceID = '''',
     Address = ''0.0.0.0'',
     AdvertisedAddress = '''',
     Port = 8080,
     HealthEndpoint = ''/health'',
     HealthInterval = 30 * Second,
     HealthTimeout = 5 * Second,
     UnhealthyThreshold = 3,
     HeartbeatEnabled = True,
     AutoRegister = True,
     DiscoveryAddress = ''localhost:8080'',
     Metadata = Map.empty,
     Routing = \<lparr> Scheme = ''http'', HealthCheckEndpoint = '''', Strategy = RoundRobin, Weight = 1 \<rparr>
   \<rparr>"

definition WithServiceName :: "string \<Rightarrow> Option" where
  "WithServiceName name = (\<lambda>so. so\<lparr>ServiceName := name\<rparr>)"

definition WithServiceID :: "string \<Rightarrow> Option" where
  "WithServiceID id' = (\<lambda>so. so\<lparr>ServiceID := id'\<rparr>)"

definition WithAddress :: "string \<Rightarrow> Option" where
  "WithAddress addr = (\<lambda>so. so\<lparr>Address := addr\<rparr>)"

definition WithAdvertisedAddress :: "string \<Rightarrow> Option" where
  "WithAdvertisedAddress addr = (\<lambda>so. so\<lparr>AdvertisedAddress := addr\<rparr>)"

definition WithPort :: "int \<Rightarrow> Option" where
  "WithPort port = (\<lambda>so. so\<lparr>Port := port\<rparr>)"

definition WithHealthEndpoint :: "string \<Rightarrow> Option" where
  "WithHealthEndpoint endpoint = (\<lambda>so. so\<lparr>HealthEndpoint := endpoint\<rparr>)"

definition WithHealthInterval :: "int \<Rightarrow> Option" where
  "WithHealthInterval d = (\<lambda>so. so\<lparr>HealthInterval := d\<rparr>)"

definition WithHeartbeat :: "bool \<Rightarrow> Option" where
  "WithHeartbeat enabled = (\<lambda>so. so\<lparr>HeartbeatEnabled := enabled\<rparr>)"

definition WithAutoRegister :: "bool \<Rightarrow> Option" where
  "WithAutoRegister enabled = (\<lambda>so. so\<lparr>AutoRegister := enabled\<rparr>)"

definition WithDiscoveryAddress :: "string \<Rightarrow> Option" where
  "WithDiscoveryAddress addr = (\<lambda>so. so\<lparr>DiscoveryAddress := addr\<rparr>)"

definition WithMetadata :: "string \<Rightarrow> string \<Rightarrow> Option" where
  "WithMetadata key val = (\<lambda>so. so\<lparr>Metadata := (Metadata so)(key \<mapsto> val)\<rparr>)"

definition WithRoutingStrategy :: "LoadBalancingStrategy \<Rightarrow> Option" where
  "WithRoutingStrategy s = (\<lambda>so. so\<lparr>Routing := (Routing so)\<lparr>Strategy := s\<rparr>\<rparr>)"

definition WithRoutingWeight :: "int \<Rightarrow> Option" where
  "WithRoutingWeight w = (\<lambda>so. so\<lparr>Routing := (Routing so)\<lparr>Weight := w\<rparr>\<rparr>)"

definition WithRoutingScheme :: "string \<Rightarrow> Option" where
  "WithRoutingScheme scheme = (\<lambda>so. so\<lparr>Routing := (Routing so)\<lparr>Scheme := scheme\<rparr>\<rparr>)"

subsection \<open>mesh.go: New\<close>

text \<open>
  \<^verbatim>\<open>MeshService\<close>: the resolved options and the bound address (empty before \<^verbatim>\<open>start\<close>).
  The mux and the logger carry no state that \<^verbatim>\<open>New\<close> or the lifecycle reads back; what
  the logger prints appears as log events of the lifecycle below.
\<close>

record MeshService =
  opts :: ServiceOptions
  boundAddr :: string

text \<open>The loop \<^verbatim>\<open>for _, fn := range opts { fn(&o) }\<close>: the options are applied in order.\<close>

fun applyOptions :: "Option list \<Rightarrow> ServiceOptions \<Rightarrow> ServiceOptions" where
  "applyOptions [] o' = o'"
| "applyOptions (fn # fns) o' = applyOptions fns (fn o')"

definition ErrServiceNameRequired :: error where
  "ErrServiceNameRequired = Err ''runtime: ServiceName is required''"

text \<open>The three derivations of \<^verbatim>\<open>New\<close>, in the order of the source; \<open>now\<close> is
  \<^verbatim>\<open>time.Now().UnixNano()\<close>.\<close>

definition deriveServiceID :: "int \<Rightarrow> ServiceOptions \<Rightarrow> ServiceOptions" where
  "deriveServiceID now o' =
     (if ServiceID o' = '''' then o'\<lparr>ServiceID := ServiceName o' @ ''-'' @ Itoa now\<rparr> else o')"

definition deriveAdvertisedAddress :: "ServiceOptions \<Rightarrow> ServiceOptions" where
  "deriveAdvertisedAddress o' =
     (if AdvertisedAddress o' = '''' then o'\<lparr>AdvertisedAddress := Address o'\<rparr> else o')"

definition deriveHealthCheckEndpoint :: "ServiceOptions \<Rightarrow> ServiceOptions" where
  "deriveHealthCheckEndpoint o' =
     (if HealthCheckEndpoint (Routing o') = ''''
      then o'\<lparr>Routing := (Routing o')\<lparr>HealthCheckEndpoint := HealthEndpoint o'\<rparr>\<rparr> else o')"

definition New :: "int \<Rightarrow> Option list \<Rightarrow> error + MeshService" where
  "New now fns =
     (let o' = applyOptions fns DefaultOptions in
      if ServiceName o' = '''' then Inl ErrServiceNameRequired
      else Inr \<lparr> opts = deriveHealthCheckEndpoint (deriveAdvertisedAddress (deriveServiceID now o')),
                 boundAddr = '''' \<rparr>)"

subsection \<open>mesh.go: buildMetadata\<close>

text \<open>
  The user's entries are copied into a fresh map, then the reserved keys are written;
  \<^verbatim>\<open>weight\<close> is written only when the weight is positive.
\<close>

definition buildMetadata :: "ServiceOptions \<Rightarrow> (string \<rightharpoonup> string)" where
  "buildMetadata o' =
     (let m = Map.empty ++ Metadata o';
          m = m(''scheme'' \<mapsto> Scheme (Routing o'));
          m = m(''health_check_endpoint'' \<mapsto> HealthCheckEndpoint (Routing o'));
          m = m(''lb_strategy'' \<mapsto> Strategy (Routing o'))
      in if 0 < Weight (Routing o') then m(''weight'' \<mapsto> Itoa (Weight (Routing o'))) else m)"

subsection \<open>Standard-library functions that \<^verbatim>\<open>start\<close> calls on the listener address\<close>

text \<open>
  \<^verbatim>\<open>start\<close> formats the address to listen on with \<^verbatim>\<open>net.JoinHostPort\<close>, reads the bound
  address back as the string \<^verbatim>\<open>ln.Addr().String()\<close> and parses the port out of it with
  \<^verbatim>\<open>net.SplitHostPort\<close> and \<^verbatim>\<open>strconv.Atoi\<close>, dropping both errors. The three functions
  are Go's, transcribed from the standard library; \<^verbatim>\<open>IndexByte\<close> and \<^verbatim>\<open>LastIndexByte\<close>
  return \<open>-1\<close> when the byte is absent.
\<close>

fun IndexByte :: "string \<Rightarrow> char \<Rightarrow> int" where
  "IndexByte [] c = - 1"
| "IndexByte (x # xs) c =
     (if x = c then 0 else (let i = IndexByte xs c in if i < 0 then - 1 else i + 1))"

definition LastIndexByte :: "string \<Rightarrow> char \<Rightarrow> int" where
  "LastIndexByte s c =
     (let i = IndexByte (rev s) c in if i < 0 then - 1 else int (length s) - 1 - i)"

definition JoinHostPort :: "string \<Rightarrow> string \<Rightarrow> string" where
  "JoinHostPort host port =
     (if 0 \<le> IndexByte host CHR '':'' then ''['' @ host @ '']:'' @ port
      else host @ '':'' @ port)"

definition addrErr :: "string \<Rightarrow> string \<Rightarrow> string \<times> string \<times> error option" where
  "addrErr addr why = ('''', '''', Some (Err (''address '' @ addr @ '': '' @ why)))"

text \<open>The tail of \<^verbatim>\<open>SplitHostPort\<close>: the two bracket checks from positions \<open>j\<close> and \<open>k\<close>,
  then the port is everything after the last colon, at index \<open>i\<close>.\<close>

definition splitFinish :: "string \<Rightarrow> string \<Rightarrow> nat \<Rightarrow> nat \<Rightarrow> nat \<Rightarrow> string \<times> string \<times> error option" where
  "splitFinish hostport host i j k =
     (if 0 \<le> IndexByte (drop j hostport) CHR ''['' then addrErr hostport ''unexpected '[' in address''
      else if 0 \<le> IndexByte (drop k hostport) CHR '']'' then addrErr hostport ''unexpected ']' in address''
      else (host, drop (i + 1) hostport, None))"

definition SplitHostPort :: "string \<Rightarrow> string \<times> string \<times> error option" where
  "SplitHostPort hostport =
     (let i = LastIndexByte hostport CHR '':'' in
      if i < 0 then addrErr hostport ''missing port in address''
      else if hd hostport = CHR ''[''
      then (let end' = IndexByte hostport CHR '']'' in
            if end' < 0 then addrErr hostport ''missing ']' in address''
            else if end' + 1 = int (length hostport) then addrErr hostport ''missing port in address''
            else if end' + 1 = i
            then splitFinish hostport (drop 1 (take (nat end') hostport)) (nat i) 1 (nat end' + 1)
            else if hostport ! (nat end' + 1) = CHR '':''
            then addrErr hostport ''too many colons in address''
            else addrErr hostport ''missing port in address'')
      else (let host = take (nat i) hostport in
            if 0 \<le> IndexByte host CHR '':'' then addrErr hostport ''too many colons in address''
            else splitFinish hostport host (nat i) 0 0))"

definition is_digit :: "char \<Rightarrow> bool" where
  "is_digit c = (48 \<le> (of_char c :: nat) \<and> (of_char c :: nat) \<le> 57)"

definition digits_val :: "string \<Rightarrow> int" where
  "digits_val ds = foldl (\<lambda>n c. n * 10 + (of_char c - 48)) 0 ds"

text \<open>
  \<^verbatim>\<open>strconv.Atoi\<close> on a 64-bit platform: an optional sign, then decimal digits. A
  syntax error gives 0; a value outside \<^verbatim>\<open>int64\<close> gives the nearest bound and a range
  error.
\<close>

definition Atoi :: "string \<Rightarrow> int \<times> error option" where
  "Atoi s =
     (let neg = (s \<noteq> [] \<and> hd s = CHR ''-'');
          ds = (if s \<noteq> [] \<and> (hd s = CHR ''-'' \<or> hd s = CHR ''+'') then tl s else s)
      in if ds = [] \<or> \<not> list_all is_digit ds
         then (0, Some (Err (''strconv.Atoi: parsing '' @ s @ '': invalid syntax'')))
         else (let n = digits_val ds in
               if \<not> neg \<and> 2 ^ 63 \<le> n
               then (2 ^ 63 - 1, Some (Err (''strconv.Atoi: parsing '' @ s @ '': value out of range'')))
               else if neg \<and> 2 ^ 63 < n
               then (- (2 ^ 63), Some (Err (''strconv.Atoi: parsing '' @ s @ '': value out of range'')))
               else (if neg then - n else n, None)))"

subsection \<open>The collaborators of \<^verbatim>\<open>start\<close>: listener, registry client, events\<close>

text \<open>
  The address of a bound TCP listener: the textual IP (with its zone, if any) and the
  port. \<^verbatim>\<open>ln.Addr().String()\<close> joins them with \<^verbatim>\<open>JoinHostPort\<close>.
\<close>

record TCPAddr =
  tcp_IP :: string
  tcp_Port :: int

definition TCPAddr_String :: "TCPAddr \<Rightarrow> string" where
  "TCPAddr_String a = JoinHostPort (tcp_IP a) (Itoa (tcp_Port a))"

datatype HealthStatus = HEALTH_STATUS_HEALTHY | HEALTH_STATUS_DEGRADED

text \<open>
  The request of \<^verbatim>\<open>register\<close>. The port and the threshold are \<^verbatim>\<open>int32\<close>: the conversion
  from \<^verbatim>\<open>int\<close> keeps the low 32 bits. \<^verbatim>\<open>IntervalSeconds\<close> and \<^verbatim>\<open>TimeoutSeconds\<close> go through
  \<^verbatim>\<open>float64\<close> and are left out.
\<close>

record RegisterServiceRequest =
  req_ServiceName :: string
  req_ServiceId :: string
  req_Address :: string
  req_Port :: "32 word"
  req_Metadata :: "string \<rightharpoonup> string"
  req_HealthCheck_Endpoint :: string
  req_HealthCheck_UnhealthyThreshold :: "32 word"

record RegisterServiceResponse =
  resp_Success :: bool
  resp_ServiceId :: string
  resp_ErrorMessage :: string

text \<open>
  What the outside world answers to the calls of the orchestrating flow: a call
  returns either a transport error or a response. The answers to the heartbeat calls
  and the result of the serving loop arrive with the schedule (see \<open>action\<close>).
\<close>

record env =
  net_Listen :: "string \<Rightarrow> error + TCPAddr"
  grpc_NewClient :: "string \<Rightarrow> error option"
  client_Register :: "RegisterServiceRequest \<Rightarrow> error + RegisterServiceResponse"
  client_Deregister :: "string \<Rightarrow> error + bool"

datatype level = LevelInfo | LevelWarn | LevelError

text \<open>What an execution does, in the order in which it happens.\<close>

datatype event =
    EvListen string
  | EvListenerClose
  | EvNewClient string
  | EvRegister RegisterServiceRequest
  | EvReportHealth string HealthStatus string
  | EvDeregister string
  | EvDeregisterReturned
  | EvNewTicker int
  | EvHeartbeatLoopReturn
  | EvCloseHeartbeatDone
  | EvServe
  | EvServeReturned error
  | EvServerShutdown
  | EvCtxCancelled
  | EvRecvCtxDone
  | EvRecvServerErr "error option"
  | EvConnClose
  | EvLog level string

definition ErrServerClosed :: error where
  "ErrServerClosed = Err ''http: Server closed''"

definition wrap :: "string \<Rightarrow> error \<Rightarrow> error" where
  "wrap prefix e = (case e of Err msg \<Rightarrow> Err (prefix @ '': '' @ msg))"

subsection \<open>mesh.go: register\<close>

definition registerRequest :: "ServiceOptions \<Rightarrow> int \<Rightarrow> RegisterServiceRequest" where
  "registerRequest o' actualPort = \<lparr>
     req_ServiceName = ServiceName o',
     req_ServiceId = ServiceID o',
     req_Address = AdvertisedAddress o',
     req_Port = word_of_int actualPort,
     req_Metadata = buildMetadata o',
     req_HealthCheck_Endpoint = HealthEndpoint o',
     req_HealthCheck_UnhealthyThreshold = word_of_int (UnhealthyThreshold o') \<rparr>"

text \<open>\<^verbatim>\<open>register\<close> returns what it did and its error: a transport error and a rejection
  (\<^verbatim>\<open>Success = false\<close>) are both errors; only a success is logged here.\<close>

definition register :: "ServiceOptions \<Rightarrow> env \<Rightarrow> int \<Rightarrow> event list \<times> error option" where
  "register o' e actualPort =
     (let req = registerRequest o' actualPort in
      case client_Register e req of
        Inl err \<Rightarrow> ([EvRegister req], Some (wrap ''gRPC Register'' err))
      | Inr resp \<Rightarrow>
          if \<not> resp_Success resp
          then ([EvRegister req], Some (Err (''registration rejected: '' @ resp_ErrorMessage resp)))
          else ([EvRegister req, EvLog LevelInfo ''registered with discovery''], None))"

subsection \<open>mesh.go: start, deregister, heartbeatLoop and sendHeartbeat\<close>

text \<open>
  \<^verbatim>\<open>start\<close> runs three flows at once: its own (the orchestrating flow), the heartbeat
  goroutine and the goroutine around \<^verbatim>\<open>server.Serve\<close>. They share the context \<^verbatim>\<open>ctx\<close>, the
  channels \<^verbatim>\<open>heartbeatDone\<close> and \<^verbatim>\<open>serverErr\<close> and the ticker's channel. The model is a
  machine whose state holds the program point of each flow and the shared channels; a
  schedule (a list of actions) says which flow moves next and what the outside world
  does. An action that is not possible in a state (a receive on a channel that is not
  ready, a step of a flow that is elsewhere) gives \<open>None\<close>.

  Program points of the orchestrating flow, in source order; each names the statement
  about to run. \<open>MReturned r\<close>: \<^verbatim>\<open>start\<close> has returned \<open>r\<close>.
\<close>

datatype mpc =
    MListen
  | MNewClient
  | MRegister
  | MGoHeartbeat
  | MGoServe
  | MSelect
  | MShuttingDown
  | MReportDegraded
  | MDeregister
  | MDeregisterReturn
  | MServerShutdown
  | MAwaitHeartbeat
  | MConnClose
  | MReturned "error option"

text \<open>
  The heartbeat goroutine: not started, started but before \<^verbatim>\<open>time.NewTicker\<close>, at the
  \<^verbatim>\<open>select\<close> of the loop, inside the \<^verbatim>\<open>ReportHealth\<close> call of \<^verbatim>\<open>sendHeartbeat\<close>, returned, or
  panicked (\<^verbatim>\<open>time.NewTicker\<close> panics on a duration that is not positive, which ends the
  whole process).
\<close>

datatype hb_state = HBNotStarted | HBSpawned | HBSelect | HBInCall | HBReturned | HBPanicked

datatype srv_state = SrvNotStarted | SrvServing | SrvReturned

datatype action =
    Main
  | MainRecvCtxDone
  | MainRecvServerErr
  | CtxCancel
  | TickerFire
  | HeartbeatStart
  | HeartbeatRecvCtxDone
  | HeartbeatRecvTick
  | HeartbeatCallReturns "error option"
  | ServeReturns error

record lifecycle =
  self :: MeshService
  pc :: mpc
  discoveryClient :: bool
  actualPort :: int
  ctxDone :: bool
  hb :: hb_state
  heartbeatDone :: bool
  tickerC :: bool
  srv :: srv_state
  serverErr :: "error option"
  serverErrClosed :: bool
  trace :: "event list"

definition start_init :: "MeshService \<Rightarrow> lifecycle" where
  "start_init svc = \<lparr> self = svc, pc = MListen, discoveryClient = False, actualPort = 0,
     ctxDone = False, hb = HBNotStarted, heartbeatDone = False, tickerC = False,
     srv = SrvNotStarted, serverErr = None, serverErrClosed = False, trace = [] \<rparr>"

definition emit :: "event list \<Rightarrow> lifecycle \<Rightarrow> lifecycle" where
  "emit evs s = s\<lparr>trace := trace s @ evs\<rparr>"

text \<open>
  One step of the orchestrating flow at each program point. The two receives of the
  \<^verbatim>\<open>select\<close> are actions of their own (below), and \<^verbatim>\<open><-heartbeatDone\<close> waits until the
  channel is closed. \<open>MReportDegraded\<close>, \<open>MDeregister\<close> and \<open>MDeregisterReturn\<close> are the
  body of \<^verbatim>\<open>deregister\<close>.
\<close>

fun start_at :: "env \<Rightarrow> mpc \<Rightarrow> lifecycle \<Rightarrow> lifecycle option" where
  "start_at e MListen s =
     (let o' = opts (self s); addr = JoinHostPort (Address o') (Itoa (Port o')) in
      case net_Listen e addr of
        Inl err \<Rightarrow>
          Some (emit [EvListen addr] (s\<lparr>pc := MReturned (Some (wrap (''runtime: listen '' @ addr) err))\<rparr>))
      | Inr a \<Rightarrow>
          (let b = TCPAddr_String a; portStr = fst (snd (SplitHostPort b)) in
           Some (emit [EvListen addr, EvLog LevelInfo ''service starting'']
                   (s\<lparr>self := (self s)\<lparr>boundAddr := b\<rparr>, actualPort := fst (Atoi portStr),
                      pc := MNewClient\<rparr>))))"
| "start_at e MNewClient s =
     (let o' = opts (self s) in
      if AutoRegister o' \<or> HeartbeatEnabled o'
      then (case grpc_NewClient e (DiscoveryAddress o') of
              Some err \<Rightarrow>
                Some (emit [EvNewClient (DiscoveryAddress o'), EvListenerClose]
                        (s\<lparr>pc := MReturned (Some (wrap (''runtime: connect to discovery '' @ DiscoveryAddress o') err))\<rparr>))
            | None \<Rightarrow>
                Some (emit [EvNewClient (DiscoveryAddress o')] (s\<lparr>discoveryClient := True, pc := MRegister\<rparr>)))
      else Some (s\<lparr>pc := MRegister\<rparr>))"
| "start_at e MRegister s =
     (let o' = opts (self s) in
      if AutoRegister o' \<and> discoveryClient s
      then (case register o' e (actualPort s) of
              (evs, Some regErr) \<Rightarrow>
                Some (emit (evs @ [EvLog LevelError ''registration failed'']) (s\<lparr>pc := MGoHeartbeat\<rparr>))
            | (evs, None) \<Rightarrow> Some (emit evs (s\<lparr>pc := MGoHeartbeat\<rparr>)))
      else Some (s\<lparr>pc := MGoHeartbeat\<rparr>))"
| "start_at e MGoHeartbeat s =
     (if HeartbeatEnabled (opts (self s)) \<and> discoveryClient s
      then Some (s\<lparr>hb := HBSpawned, pc := MGoServe\<rparr>)
      else Some (emit [EvCloseHeartbeatDone] (s\<lparr>heartbeatDone := True, pc := MGoServe\<rparr>)))"
| "start_at e MGoServe s = Some (emit [EvServe] (s\<lparr>srv := SrvServing, pc := MSelect\<rparr>))"
| "start_at e MSelect s = None"
| "start_at e MShuttingDown s =
     Some (emit [EvLog LevelInfo ''shutting down'']
        (s\<lparr>pc := (if AutoRegister (opts (self s)) \<and> discoveryClient s
                   then MReportDegraded else MServerShutdown)\<rparr>))"
| "start_at e MReportDegraded s =
     Some (emit [EvReportHealth (ServiceID (opts (self s))) HEALTH_STATUS_DEGRADED ''shutting down'']
        (s\<lparr>pc := MDeregister\<rparr>))"
| "start_at e MDeregister s =
     Some (emit [EvDeregister (ServiceID (opts (self s)))] (s\<lparr>pc := MDeregisterReturn\<rparr>))"
| "start_at e MDeregisterReturn s =
     (case client_Deregister e (ServiceID (opts (self s))) of
        Inl err \<Rightarrow>
          Some (emit [EvDeregisterReturned, EvLog LevelError ''deregistration failed'']
                  (s\<lparr>pc := MServerShutdown\<rparr>))
      | Inr removed \<Rightarrow>
          Some (emit (EvDeregisterReturned #
                       (if removed then [EvLog LevelInfo ''deregistered from discovery''] else []))
                  (s\<lparr>pc := MServerShutdown\<rparr>)))"
| "start_at e MServerShutdown s = Some (emit [EvServerShutdown] (s\<lparr>pc := MAwaitHeartbeat\<rparr>))"
| "start_at e MAwaitHeartbeat s =
     (if heartbeatDone s then Some (s\<lparr>pc := MConnClose\<rparr>) else None)"
| "start_at e MConnClose s =
     Some (emit ((if discoveryClient s then [EvConnClose] else []) @ [EvLog LevelInfo ''stopped''])
        (s\<lparr>pc := MReturned None\<rparr>))"
| "start_at e (MReturned r) s = None"

text \<open>
  One action of the schedule. Go's \<^verbatim>\<open>select\<close> takes any one of the cases that are
  ready, so when the context is cancelled and a tick is waiting, the heartbeat loop may
  take either; likewise the \<^verbatim>\<open>select\<close> of \<^verbatim>\<open>start\<close>. A receive from the closed, empty
  \<^verbatim>\<open>serverErr\<close> gives \<^verbatim>\<open>nil\<close>. The ticker's channel holds one tick; a tick that finds it
  full is dropped. After a panic nothing runs.
\<close>

definition step :: "env \<Rightarrow> lifecycle \<Rightarrow> action \<Rightarrow> lifecycle option" where
  "step e s a =
     (if hb s = HBPanicked then None
      else case a of
        Main \<Rightarrow> start_at e (pc s) s
      | MainRecvCtxDone \<Rightarrow>
          (if pc s = MSelect \<and> ctxDone s
           then Some (emit [EvRecvCtxDone] (s\<lparr>pc := MShuttingDown\<rparr>)) else None)
      | MainRecvServerErr \<Rightarrow>
          (if pc s = MSelect \<and> serverErrClosed s
           then (case serverErr s of
                   Some err \<Rightarrow>
                     Some (emit [EvRecvServerErr (Some err)] (s\<lparr>serverErr := None, pc := MReturned (Some err)\<rparr>))
                 | None \<Rightarrow> Some (emit [EvRecvServerErr None] (s\<lparr>pc := MShuttingDown\<rparr>)))
           else None)
      | CtxCancel \<Rightarrow>
          (if ctxDone s then Some s else Some (emit [EvCtxCancelled] (s\<lparr>ctxDone := True\<rparr>)))
      | TickerFire \<Rightarrow>
          (if hb s = HBSelect \<or> hb s = HBInCall then Some (s\<lparr>tickerC := True\<rparr>) else None)
      | HeartbeatStart \<Rightarrow>
          (if hb s = HBSpawned
           then (if HealthInterval (opts (self s)) \<le> 0
                 then Some (s\<lparr>hb := HBPanicked\<rparr>)
                 else Some (emit [EvNewTicker (HealthInterval (opts (self s)))] (s\<lparr>hb := HBSelect\<rparr>)))
           else None)
      | HeartbeatRecvCtxDone \<Rightarrow>
          (if hb s = HBSelect \<and> ctxDone s
           then Some (emit [EvHeartbeatLoopReturn, EvCloseHeartbeatDone]
                        (s\<lparr>hb := HBReturned, heartbeatDone := True\<rparr>))
           else None)
      | HeartbeatRecvTick \<Rightarrow>
          (if hb s = HBSelect \<and> tickerC s
           then Some (emit [EvReportHealth (ServiceID (opts (self s))) HEALTH_STATUS_HEALTHY ''heartbeat'']
                        (s\<lparr>tickerC := False, hb := HBInCall\<rparr>))
           else None)
      | HeartbeatCallReturns r \<Rightarrow>
          (if hb s = HBInCall
           then (case r of
                   Some err \<Rightarrow> Some (emit [EvLog LevelWarn ''heartbeat failed''] (s\<lparr>hb := HBSelect\<rparr>))
                 | None \<Rightarrow> Some (s\<lparr>hb := HBSelect\<rparr>))
           else None)
      | ServeReturns err \<Rightarrow>
          (if srv s = SrvServing
           then Some (emit [EvServeReturned err]
                        (s\<lparr>srv := SrvReturned,
                           serverErr := (if err \<noteq> ErrServerClosed then Some err else None),
                           serverErrClosed := True\<rparr>))
           else None))"

fun run :: "env \<Rightarrow> action list \<Rightarrow> lifecycle \<Rightarrow> lifecycle option" where
  "run e [] s = Some s"
| "run e (a # as) s = (case step e s a of None \<Rightarrow> None | Some s' \<Rightarrow> run e as s')"

text \<open>An execution of \<^verbatim>\<open>start\<close> on a service: a schedule that the machine can follow from
  the initial state.\<close>

definition start :: "MeshService \<Rightarrow> env \<Rightarrow> action list \<Rightarrow> lifecycle option" where
  "start svc e sched = run e sched (start_init svc)"

subsection \<open>Reading a trace\<close>

fun is_heartbeat :: "event \<Rightarrow> bool" where
  "is_heartbeat (EvReportHealth i st out) = (st = HEALTH_STATUS_HEALTHY)"
| "is_heartbeat _ = False"

fun is_degraded :: "event \<Rightarrow> bool" where
  "is_degraded (EvReportHealth i st out) = (st = HEALTH_STATUS_DEGRADED)"
| "is_degraded _ = False"

fun is_deregister :: "event \<Rightarrow> bool" where
  "is_deregister (EvDeregister i) = True"
| "is_deregister _ = False"

fun is_register :: "event \<Rightarrow> bool" where
  "is_register (EvRegister r) = True"
| "is_register _ = False"

fun is_cancel :: "event \<Rightarrow> bool" where
  "is_cancel EvCtxCancelled = True"
| "is_cancel _ = False"

fun is_recv_ctx_done :: "event \<Rightarrow> bool" where
  "is_recv_ctx_done EvRecvCtxDone = True"
| "is_recv_ctx_done _ = False"

fun is_recv_closed :: "event \<Rightarrow> bool" where
  "is_recv_closed (EvRecvServerErr None) = True"
| "is_recv_closed _ = False"

fun is_close_heartbeat_done :: "event \<Rightarrow> bool" where
  "is_close_heartbeat_done EvCloseHeartbeatDone = True"
| "is_close_heartbeat_done _ = False"

fun is_heartbeat_return :: "event \<Rightarrow> bool" where
  "is_heartbeat_return EvHeartbeatLoopReturn = True"
| "is_heartbeat_return _ = False"

fun is_conn_close :: "event \<Rightarrow> bool" where
  "is_conn_close EvConnClose = True"
| "is_conn_close _ = False"

fun is_deregister_returned :: "event \<Rightarrow> bool" where
  "is_deregister_returned EvDeregisterReturned = True"
| "is_deregister_returned _ = False"

fun is_server_shutdown :: "event \<Rightarrow> bool" where
  "is_server_shutdown EvServerShutdown = True"
| "is_server_shutdown _ = False"

fun is_serve :: "event \<Rightarrow> bool" where
  "is_serve EvServe = True"
| "is_serve _ = False"

fun is_log :: "event \<Rightarrow> bool" where
  "is_log (EvLog l m) = True"
| "is_log _ = False"

fun is_heartbeat_failed_log :: "event \<Rightarrow> bool" where
  "is_heartbeat_failed_log (EvLog l m) = (l = LevelWarn \<and> m = ''heartbeat failed'')"
| "is_heartbeat_failed_log _ = False"

fun is_failed_return :: "action \<Rightarrow> bool" where
  "is_failed_return (HeartbeatCallReturns (Some err)) = True"
| "is_failed_return _ = False"

fun is_recv_tick :: "action \<Rightarrow> bool" where
  "is_recv_tick HeartbeatRecvTick = True"
| "is_recv_tick _ = False"

text \<open>The register call fails: by a transport error or by a rejection.\<close>

definition register_fails :: "env \<Rightarrow> RegisterServiceRequest \<Rightarrow> bool" where
  "register_fails e req =
     (case client_Register e req of Inl err \<Rightarrow> True | Inr resp \<Rightarrow> \<not> resp_Success resp)"

text \<open>\<open>precedes P Q tr\<close>: no \<open>Q\<close> event comes before the first \<open>P\<close> event of the trace.
  \<open>none_after P Q tr\<close>: no \<open>Q\<close> event comes after the first \<open>P\<close> event.\<close>

fun precedes :: "('a \<Rightarrow> bool) \<Rightarrow> ('a \<Rightarrow> bool) \<Rightarrow> 'a list \<Rightarrow> bool" where
  "precedes P Q [] = True"
| "precedes P Q (x # xs) = (if P x then True else if Q x then False else precedes P Q xs)"

fun none_after :: "('a \<Rightarrow> bool) \<Rightarrow> ('a \<Rightarrow> bool) \<Rightarrow> 'a list \<Rightarrow> bool" where
  "none_after P Q [] = True"
| "none_after P Q (x # xs) = (if P x then \<not> list_ex Q xs else none_after P Q xs)"

subsection \<open>Invariants of the lifecycle\<close>

text \<open>
  The program points in source order; an error return has rank 0, so that a fact of the
  form \<open>k \<le> rank (pc s)\<close> speaks of the flow that goes on to the normal return. The
  invariants relate the program points and the channels to what the trace contains.
\<close>

fun rank :: "mpc \<Rightarrow> nat" where
  "rank MListen = 0"
| "rank MNewClient = 1"
| "rank MRegister = 2"
| "rank MGoHeartbeat = 3"
| "rank MGoServe = 4"
| "rank MSelect = 5"
| "rank MShuttingDown = 6"
| "rank MReportDegraded = 7"
| "rank MDeregister = 8"
| "rank MDeregisterReturn = 9"
| "rank MServerShutdown = 10"
| "rank MAwaitHeartbeat = 11"
| "rank MConnClose = 12"
| "rank (MReturned None) = 13"
| "rank (MReturned (Some err)) = 0"

definition inv_client :: "lifecycle \<Rightarrow> bool" where
  "inv_client s =
     ((pc s = MListen \<or> pc s = MNewClient \<longrightarrow> \<not> discoveryClient s)
    \<and> (discoveryClient s \<longrightarrow> AutoRegister (opts (self s)) \<or> HeartbeatEnabled (opts (self s)))
    \<and> (2 \<le> rank (pc s) \<and> (AutoRegister (opts (self s)) \<or> HeartbeatEnabled (opts (self s)))
          \<longrightarrow> discoveryClient s)
    \<and> (7 \<le> rank (pc s) \<and> rank (pc s) \<le> 9 \<longrightarrow> AutoRegister (opts (self s)) \<and> discoveryClient s))"

definition inv_early :: "lifecycle \<Rightarrow> bool" where
  "inv_early s =
     ((pc s = MListen \<or> pc s = MNewClient \<or> pc s = MRegister \<longrightarrow> \<not> list_ex is_register (trace s))
    \<and> (pc s = MListen \<or> pc s = MNewClient \<or> pc s = MRegister \<or> pc s = MGoHeartbeat
          \<longrightarrow> hb s = HBNotStarted \<and> \<not> heartbeatDone s)
    \<and> (pc s = MListen \<or> pc s = MNewClient \<or> pc s = MRegister \<or> pc s = MGoHeartbeat \<or> pc s = MGoServe
          \<longrightarrow> srv s = SrvNotStarted)
    \<and> (srv s = SrvNotStarted \<longrightarrow> \<not> serverErrClosed s \<and> serverErr s = None))"

definition inv_hb :: "lifecycle \<Rightarrow> bool" where
  "inv_hb s =
     ((heartbeatDone s \<longrightarrow> hb s = HBReturned \<or> hb s = HBNotStarted)
    \<and> (heartbeatDone s \<longrightarrow> list_ex is_close_heartbeat_done (trace s))
    \<and> (list_ex is_close_heartbeat_done (trace s) \<longrightarrow> heartbeatDone s)
    \<and> (hb s = HBNotStarted \<or> hb s = HBSpawned \<longrightarrow> \<not> list_ex is_heartbeat (trace s))
    \<and> (hb s = HBReturned \<longrightarrow> ctxDone s)
    \<and> (ctxDone s \<longrightarrow> list_ex is_cancel (trace s))
    \<and> (list_ex is_cancel (trace s) \<longrightarrow> ctxDone s)
    \<and> (hb s = HBReturned \<longrightarrow> list_ex is_heartbeat_return (trace s))
    \<and> (list_ex is_heartbeat_return (trace s) \<longrightarrow> hb s = HBReturned)
    \<and> (12 \<le> rank (pc s) \<longrightarrow> heartbeatDone s))"

definition inv_shut :: "lifecycle \<Rightarrow> bool" where
  "inv_shut s =
     ((list_ex is_degraded (trace s) \<longrightarrow> 8 \<le> rank (pc s))
    \<and> (list_ex is_deregister (trace s) \<longrightarrow> 9 \<le> rank (pc s))
    \<and> (list_ex is_deregister_returned (trace s) \<longrightarrow> 10 \<le> rank (pc s))
    \<and> (list_ex is_server_shutdown (trace s) \<longrightarrow> 11 \<le> rank (pc s))
    \<and> (list_ex is_conn_close (trace s) \<longrightarrow> 13 \<le> rank (pc s))
    \<and> (8 \<le> rank (pc s) \<and> AutoRegister (opts (self s)) \<longrightarrow> list_ex is_degraded (trace s))
    \<and> (9 \<le> rank (pc s) \<and> AutoRegister (opts (self s)) \<longrightarrow> list_ex is_deregister (trace s))
    \<and> (10 \<le> rank (pc s) \<and> AutoRegister (opts (self s)) \<longrightarrow> list_ex is_deregister_returned (trace s))
    \<and> (11 \<le> rank (pc s) \<longrightarrow> list_ex is_server_shutdown (trace s))
    \<and> (13 \<le> rank (pc s) \<and> discoveryClient s \<longrightarrow> list_ex is_conn_close (trace s))
    \<and> (list_ex is_recv_ctx_done (trace s) \<longrightarrow> 6 \<le> rank (pc s) \<and> list_ex is_cancel (trace s))
    \<and> (list_ex is_recv_closed (trace s) \<longrightarrow> 6 \<le> rank (pc s))
    \<and> (6 \<le> rank (pc s) \<longrightarrow> list_ex is_recv_ctx_done (trace s) \<or> list_ex is_recv_closed (trace s)))"

definition inv_spawn :: "lifecycle \<Rightarrow> bool" where
  "inv_spawn s = (4 \<le> rank (pc s) \<and> HeartbeatEnabled (opts (self s)) \<longrightarrow> hb s \<noteq> HBNotStarted)"

definition inv_base :: "lifecycle \<Rightarrow> bool" where
  "inv_base s = (inv_client s \<and> inv_early s \<and> inv_hb s \<and> inv_shut s \<and> inv_spawn s)"

subsection \<open>Concrete configurations used as examples\<close>

text \<open>A caller puts its own \<^verbatim>\<open>weight\<close> entry in the metadata and sets the routing weight to 0.\<close>

definition opts_user_weight :: ServiceOptions where
  "opts_user_weight = applyOptions [WithMetadata ''weight'' ''99'', WithRoutingWeight 0] DefaultOptions"

text \<open>The configuration of \<^verbatim>\<open>TestBuildMetadata\<close>, after the derivations of \<^verbatim>\<open>New\<close>.\<close>

definition opts_meta_test :: ServiceOptions where
  "opts_meta_test = deriveHealthCheckEndpoint (applyOptions
     [WithServiceName ''meta-test'', WithMetadata ''env'' ''prod'', WithMetadata ''version'' ''1.2.3'',
      WithRoutingStrategy WeightedRoundRobin, WithRoutingWeight 3, WithRoutingScheme ''https'']
     DefaultOptions)"

text \<open>The service of \<^verbatim>\<open>TestNew_SetsAdvertisedAddressDefault\<close>, created at time 42.\<close>

definition svc_adv :: MeshService where
  "svc_adv = \<lparr> opts = DefaultOptions\<lparr> ServiceName := ''test'', ServiceID := ''test-42'',
       Address := ''10.0.0.1'', AdvertisedAddress := ''10.0.0.1'',
       Routing := (Routing DefaultOptions)\<lparr> HealthCheckEndpoint := ''/health'' \<rparr> \<rparr>, boundAddr = '''' \<rparr>"

text \<open>
  A service on an ephemeral port with registration and heartbeats on (the defaults),
  created at time 42, and a world in which every call succeeds: the listener is bound to
  port 40123.
\<close>

definition opts_demo :: ServiceOptions where
  "opts_demo = deriveHealthCheckEndpoint (deriveAdvertisedAddress (deriveServiceID 42
     (applyOptions [WithServiceName ''svc'', WithPort 0] DefaultOptions)))"

definition svc_demo :: MeshService where
  "svc_demo = \<lparr> opts = opts_demo, boundAddr = '''' \<rparr>"

definition addr_demo :: TCPAddr where
  "addr_demo = \<lparr> tcp_IP = ''0.0.0.0'', tcp_Port = 40123 \<rparr>"

definition env_ok :: env where
  "env_ok = \<lparr>
     net_Listen = (\<lambda>addr. Inr addr_demo),
     grpc_NewClient = (\<lambda>addr. None),
     client_Register = (\<lambda>req. Inr \<lparr> resp_Success = True, resp_ServiceId = req_ServiceId req,
                                         resp_ErrorMessage = '''' \<rparr>),
     client_Deregister = (\<lambda>i. Inr True) \<rparr>"

text \<open>The same world, except that the registry cannot be reached for \<^verbatim>\<open>Register\<close>, or
  answers it with a rejection.\<close>

definition env_register_unreachable :: env where
  "env_register_unreachable = env_ok\<lparr> client_Register := (\<lambda>req. Inl (Err ''connection refused'')) \<rparr>"

definition env_register_rejected :: env where
  "env_register_rejected = env_ok\<lparr> client_Register :=
     (\<lambda>req. Inr \<lparr> resp_Success = False, resp_ServiceId = '''', resp_ErrorMessage = ''duplicate'' \<rparr>) \<rparr>"

text \<open>Startup up to the \<^verbatim>\<open>select\<close>, with the heartbeat goroutine at its own \<^verbatim>\<open>select\<close>.\<close>

definition sched_startup :: "action list" where
  "sched_startup = [Main, Main, Main, Main, HeartbeatStart, Main]"

text \<open>A clean shutdown: one heartbeat fails, then the context is cancelled, the
  orchestrating flow goes through the shutdown sequence, the heartbeat loop leaves and
  \<^verbatim>\<open>start\<close> returns.\<close>

definition sched_clean :: "action list" where
  "sched_clean = sched_startup @
     [TickerFire, HeartbeatRecvTick, HeartbeatCallReturns (Some (Err ''unavailable'')),
      CtxCancel, MainRecvCtxDone, Main, Main, Main, Main, Main,
      HeartbeatRecvCtxDone, ServeReturns ErrServerClosed, Main, Main]"

text \<open>A tick is waiting when the context is cancelled; the heartbeat goroutine runs its
  \<^verbatim>\<open>select\<close> only after \<^verbatim>\<open>deregister\<close> has returned, and takes the tick.\<close>

definition sched_race :: "action list" where
  "sched_race = sched_startup @
     [TickerFire, CtxCancel, MainRecvCtxDone, Main, Main, Main, Main, HeartbeatRecvTick]"

text \<open>The serving loop fails after startup and \<^verbatim>\<open>start\<close> receives the error.\<close>

definition sched_serve_fails :: "action list" where
  "sched_serve_fails = sched_startup @
     [ServeReturns (Err ''accept tcp: too many open files''), MainRecvServerErr]"

text \<open>The states these schedules lead to, written out.\<close>

definition tr_startup :: "event list" where
  "tr_startup = [EvListen ''0.0.0.0:0'', EvLog LevelInfo ''service starting'',
     EvNewClient ''localhost:8080'', EvRegister (registerRequest opts_demo 40123),
     EvLog LevelInfo ''registered with discovery'', EvNewTicker (30 * Second), EvServe]"

definition s_serving :: lifecycle where
  "s_serving = \<lparr> self = svc_demo\<lparr>boundAddr := ''0.0.0.0:40123''\<rparr>, pc = MSelect,
     discoveryClient = True, actualPort = 40123, ctxDone = False, hb = HBSelect,
     heartbeatDone = False, tickerC = False, srv = SrvServing, serverErr = None,
     serverErrClosed = False, trace = tr_startup \<rparr>"

definition tr_startup_unregistered :: "event list" where
  "tr_startup_unregistered = [EvListen ''0.0.0.0:0'', EvLog LevelInfo ''service starting'',
     EvNewClient ''localhost:8080'', EvRegister (registerRequest opts_demo 40123),
     EvLog LevelError ''registration failed'', EvNewTicker (30 * Second), EvServe]"

definition s_serving_unregistered :: lifecycle where
  "s_serving_unregistered = s_serving\<lparr> trace := tr_startup_unregistered \<rparr>"

definition tr_clean :: "event list" where
  "tr_clean = tr_startup @
     [EvReportHealth ''svc-42'' HEALTH_STATUS_HEALTHY ''heartbeat'',
      EvLog LevelWarn ''heartbeat failed'',
      EvCtxCancelled, EvRecvCtxDone, EvLog LevelInfo ''shutting down'',
      EvReportHealth ''svc-42'' HEALTH_STATUS_DEGRADED ''shutting down'',
      EvDeregister ''svc-42'', EvDeregisterReturned,
      EvLog LevelInfo ''deregistered from discovery'', EvServerShutdown,
      EvHeartbeatLoopReturn, EvCloseHeartbeatDone, EvServeReturned ErrServerClosed,
      EvConnClose, EvLog LevelInfo ''stopped'']"

definition s_clean :: lifecycle where
  "s_clean = s_serving\<lparr> pc := MReturned None, ctxDone := True, hb := HBReturned,
     heartbeatDone := True, srv := SrvReturned, serverErrClosed := True, trace := tr_clean \<rparr>"

definition tr_race :: "event list" where
  "tr_race = tr_startup @
     [EvCtxCancelled, EvRecvCtxDone, EvLog LevelInfo ''shutting down'',
      EvReportHealth ''svc-42'' HEALTH_STATUS_DEGRADED ''shutting down'',
      EvDeregister ''svc-42'', EvDeregisterReturned,
      EvLog LevelInfo ''deregistered from discovery'',
      EvReportHealth ''svc-42'' HEALTH_STATUS_HEALTHY ''heartbeat'']"

definition s_race :: lifecycle where
  "s_race = s_serving\<lparr> pc := MServerShutdown, ctxDone := True, hb := HBInCall, trace := tr_race \<rparr>"

definition tr_serve_failed :: "event list" where
  "tr_serve_failed = tr_startup @
     [EvServeReturned (Err ''accept tcp: too many open files''),
      EvRecvServerErr (Some (Err ''accept tcp: too many open files''))]"

definition s_serve_failed :: lifecycle where
  "s_serve_failed = s_serving\<lparr> pc := MReturned (Some (Err ''accept tcp: too many open files'')),
     srv := SrvReturned, serverErrClosed := True, trace := tr_serve_failed \<rparr>"

definition s_serve_failed_unregistered :: lifecycle where
  "s_serve_failed_unregistered = s_serve_failed\<lparr> trace := tr_startup_unregistered @
     [EvServeReturned (Err ''accept tcp: too many open files''),
      EvRecvServerErr (Some (Err ''accept tcp: too many open files''))] \<rparr>"

section \<open>Properties\<close>

subsection \<open>Helper facts\<close>

lemma applyOptions_append: "applyOptions (fs @ gs) o' = applyOptions gs (applyOptions fs o')"
  by (induction fs arbitrary: o') simp_all

lemma Itoa_42: "Itoa 42 = ''42''"
  by code_simp

lemma Itoa_3: "Itoa 3 = ''3''"
  by code_simp

lemmas With_defs = WithServiceName_def WithServiceID_def WithAddress_def WithAdvertisedAddress_def
  WithPort_def WithHealthEndpoint_def WithHealthInterval_def WithHeartbeat_def WithAutoRegister_def
  WithDiscoveryAddress_def WithMetadata_def WithRoutingStrategy_def WithRoutingWeight_def
  WithRoutingScheme_def

lemmas derive_defs = deriveServiceID_def deriveAdvertisedAddress_def deriveHealthCheckEndpoint_def

lemma New_svc_adv: "New 42 [WithServiceName ''test'', WithAddress ''10.0.0.1''] = Inr svc_adv"
  by (simp add: New_def svc_adv_def DefaultOptions_def With_defs Itoa_42 derive_defs)

subsection \<open>Steps of the lifecycle and what they preserve\<close>

lemma run_invariant:
  assumes "run e sched s0 = Some s" and "I s0"
    and "\<And>s a s'. I s \<Longrightarrow> step e s a = Some s' \<Longrightarrow> I s'"
  shows "I s"
  using assms(1,2)
proof (induction sched arbitrary: s0)
  case Nil
  then show ?case by simp
next
  case (Cons a sched)
  then show ?case by (auto split: option.splits intro: assms(3))
qed

lemma start_at_elim:
  assumes "start_at e p s = Some s'"
  obtains
    (ListenErr) addr err0 err where "p = MListen"
      "addr = JoinHostPort (Address (opts (self s))) (Itoa (Port (opts (self s))))"
      "net_Listen e addr = Inl err0"
      "s' = emit [EvListen addr] (s\<lparr>pc := MReturned (Some err)\<rparr>)"
  | (ListenOk) addr a where "p = MListen"
      "addr = JoinHostPort (Address (opts (self s))) (Itoa (Port (opts (self s))))"
      "net_Listen e addr = Inr a"
      "s' = emit [EvListen addr, EvLog LevelInfo ''service starting'']
              (s\<lparr>self := (self s)\<lparr>boundAddr := TCPAddr_String a\<rparr>,
                 actualPort := fst (Atoi (fst (snd (SplitHostPort (TCPAddr_String a))))),
                 pc := MNewClient\<rparr>)"
  | (NewClientErr) err0 err where "p = MNewClient"
      "AutoRegister (opts (self s)) \<or> HeartbeatEnabled (opts (self s))"
      "grpc_NewClient e (DiscoveryAddress (opts (self s))) = Some err0"
      "s' = emit [EvNewClient (DiscoveryAddress (opts (self s))), EvListenerClose]
              (s\<lparr>pc := MReturned (Some err)\<rparr>)"
  | (NewClientOk) "p = MNewClient"
      "AutoRegister (opts (self s)) \<or> HeartbeatEnabled (opts (self s))"
      "s' = emit [EvNewClient (DiscoveryAddress (opts (self s)))]
              (s\<lparr>discoveryClient := True, pc := MRegister\<rparr>)"
  | (NewClientSkip) "p = MNewClient"
      "\<not> AutoRegister (opts (self s))" "\<not> HeartbeatEnabled (opts (self s))"
      "s' = s\<lparr>pc := MRegister\<rparr>"
  | (Register) "p = MRegister" "AutoRegister (opts (self s))" "discoveryClient s"
      "s' = emit (fst (register (opts (self s)) e (actualPort s)) @
                  (if snd (register (opts (self s)) e (actualPort s)) = None then []
                   else [EvLog LevelError ''registration failed'']))
              (s\<lparr>pc := MGoHeartbeat\<rparr>)"
  | (RegisterSkip) "p = MRegister" "\<not> (AutoRegister (opts (self s)) \<and> discoveryClient s)"
      "s' = s\<lparr>pc := MGoHeartbeat\<rparr>"
  | (GoHeartbeat) "p = MGoHeartbeat" "HeartbeatEnabled (opts (self s))" "discoveryClient s"
      "s' = s\<lparr>hb := HBSpawned, pc := MGoServe\<rparr>"
  | (NoHeartbeat) "p = MGoHeartbeat" "\<not> (HeartbeatEnabled (opts (self s)) \<and> discoveryClient s)"
      "s' = emit [EvCloseHeartbeatDone] (s\<lparr>heartbeatDone := True, pc := MGoServe\<rparr>)"
  | (GoServe) "p = MGoServe" "s' = emit [EvServe] (s\<lparr>srv := SrvServing, pc := MSelect\<rparr>)"
  | (ShuttingDown) "p = MShuttingDown"
      "s' = emit [EvLog LevelInfo ''shutting down'']
              (s\<lparr>pc := (if AutoRegister (opts (self s)) \<and> discoveryClient s
                         then MReportDegraded else MServerShutdown)\<rparr>)"
  | (ReportDegraded) "p = MReportDegraded"
      "s' = emit [EvReportHealth (ServiceID (opts (self s))) HEALTH_STATUS_DEGRADED ''shutting down'']
              (s\<lparr>pc := MDeregister\<rparr>)"
  | (Deregister) "p = MDeregister"
      "s' = emit [EvDeregister (ServiceID (opts (self s)))] (s\<lparr>pc := MDeregisterReturn\<rparr>)"
  | (DeregisterReturn) logs where "p = MDeregisterReturn" "list_all is_log logs"
      "s' = emit (EvDeregisterReturned # logs) (s\<lparr>pc := MServerShutdown\<rparr>)"
  | (ServerShutdown) "p = MServerShutdown"
      "s' = emit [EvServerShutdown] (s\<lparr>pc := MAwaitHeartbeat\<rparr>)"
  | (AwaitHeartbeat) "p = MAwaitHeartbeat" "heartbeatDone s" "s' = s\<lparr>pc := MConnClose\<rparr>"
  | (ConnClose) "p = MConnClose"
      "s' = emit ((if discoveryClient s then [EvConnClose] else []) @ [EvLog LevelInfo ''stopped''])
              (s\<lparr>pc := MReturned None\<rparr>)"
proof (cases p)
  case MListen
  with assms that(1,2) show ?thesis
    by (auto simp: Let_def split: sum.splits)
next
  case MNewClient
  with assms that(3,4,5) show ?thesis
    by (auto simp: Let_def split: if_splits option.splits)
next
  case MRegister
  with assms that(6,7) show ?thesis
    by (auto simp: Let_def split: if_splits option.splits prod.splits)
next
  case MGoHeartbeat
  with assms that(8,9) show ?thesis
    by (auto split: if_splits)
next
  case MDeregisterReturn
  show ?thesis
  proof (cases "client_Deregister e (ServiceID (opts (self s)))")
    case (Inl err)
    with assms MDeregisterReturn show ?thesis
      by (intro that(14) [of "[EvLog LevelError ''deregistration failed'']"]) auto
  next
    case (Inr removed)
    with assms MDeregisterReturn show ?thesis
      by (intro that(14) [of "if removed then [EvLog LevelInfo ''deregistered from discovery''] else []"]) auto
  qed
next
  case MAwaitHeartbeat
  with assms that(16) show ?thesis
    by (auto split: if_splits)
qed (use assms that in auto)

lemma step_elim:
  assumes "step e s a = Some s'"
  obtains
    (Main) "a = Main" "hb s \<noteq> HBPanicked" "start_at e (pc s) s = Some s'"
  | (RecvCtxDone) "a = MainRecvCtxDone" "hb s \<noteq> HBPanicked" "pc s = MSelect" "ctxDone s"
      "s' = emit [EvRecvCtxDone] (s\<lparr>pc := MShuttingDown\<rparr>)"
  | (RecvServerErr) err where "a = MainRecvServerErr" "hb s \<noteq> HBPanicked" "pc s = MSelect"
      "serverErrClosed s" "serverErr s = Some err"
      "s' = emit [EvRecvServerErr (Some err)] (s\<lparr>serverErr := None, pc := MReturned (Some err)\<rparr>)"
  | (RecvServerClosed) "a = MainRecvServerErr" "hb s \<noteq> HBPanicked" "pc s = MSelect"
      "serverErrClosed s" "serverErr s = None"
      "s' = emit [EvRecvServerErr None] (s\<lparr>pc := MShuttingDown\<rparr>)"
  | (CancelAgain) "a = CtxCancel" "hb s \<noteq> HBPanicked" "ctxDone s" "s' = s"
  | (Cancel) "a = CtxCancel" "hb s \<noteq> HBPanicked" "\<not> ctxDone s"
      "s' = emit [EvCtxCancelled] (s\<lparr>ctxDone := True\<rparr>)"
  | (Tick) "a = TickerFire" "hb s = HBSelect \<or> hb s = HBInCall" "s' = s\<lparr>tickerC := True\<rparr>"
  | (HBPanic) "a = HeartbeatStart" "hb s = HBSpawned" "HealthInterval (opts (self s)) \<le> 0"
      "s' = s\<lparr>hb := HBPanicked\<rparr>"
  | (HBStart) "a = HeartbeatStart" "hb s = HBSpawned" "0 < HealthInterval (opts (self s))"
      "s' = emit [EvNewTicker (HealthInterval (opts (self s)))] (s\<lparr>hb := HBSelect\<rparr>)"
  | (HBDone) "a = HeartbeatRecvCtxDone" "hb s = HBSelect" "ctxDone s"
      "s' = emit [EvHeartbeatLoopReturn, EvCloseHeartbeatDone] (s\<lparr>hb := HBReturned, heartbeatDone := True\<rparr>)"
  | (HBTick) "a = HeartbeatRecvTick" "hb s = HBSelect" "tickerC s"
      "s' = emit [EvReportHealth (ServiceID (opts (self s))) HEALTH_STATUS_HEALTHY ''heartbeat'']
              (s\<lparr>tickerC := False, hb := HBInCall\<rparr>)"
  | (HBCallFails) err where "a = HeartbeatCallReturns (Some err)" "hb s = HBInCall"
      "s' = emit [EvLog LevelWarn ''heartbeat failed''] (s\<lparr>hb := HBSelect\<rparr>)"
  | (HBCallOk) "a = HeartbeatCallReturns None" "hb s = HBInCall" "s' = s\<lparr>hb := HBSelect\<rparr>"
  | (ServeReturns) err where "a = ServeReturns err" "hb s \<noteq> HBPanicked" "srv s = SrvServing"
      "s' = emit [EvServeReturned err]
              (s\<lparr>srv := SrvReturned, serverErr := (if err \<noteq> ErrServerClosed then Some err else None),
                 serverErrClosed := True\<rparr>)"
proof (cases a)
  case Main
  with assms that(1) show ?thesis
    by (simp add: step_def split: if_splits)
next
  case MainRecvCtxDone
  with assms that(2) show ?thesis
    by (simp add: step_def split: if_splits)
next
  case MainRecvServerErr
  show ?thesis
  proof (cases "serverErr s")
    case None
    with assms MainRecvServerErr that(4) show ?thesis
      by (simp add: step_def split: if_splits)
  next
    case (Some err)
    with assms MainRecvServerErr that(3) show ?thesis
      by (simp add: step_def split: if_splits)
  qed
next
  case CtxCancel
  with assms that(5,6) show ?thesis
    by (simp add: step_def split: if_splits)
next
  case TickerFire
  with assms that(7) show ?thesis
    by (simp add: step_def split: if_splits)
next
  case HeartbeatStart
  with assms that(8,9) show ?thesis
    by (simp add: step_def split: if_splits)
next
  case HeartbeatRecvCtxDone
  with assms that(10) show ?thesis
    by (simp add: step_def split: if_splits)
next
  case HeartbeatRecvTick
  with assms that(11) show ?thesis
    by (simp add: step_def split: if_splits)
next
  case (HeartbeatCallReturns r)
  show ?thesis
  proof (cases r)
    case None
    with assms HeartbeatCallReturns that(13) show ?thesis
      by (simp add: step_def split: if_splits)
  next
    case (Some err)
    with assms HeartbeatCallReturns that(12) show ?thesis
      by (simp add: step_def split: if_splits)
  qed
next
  case (ServeReturns err)
  with assms that(14) show ?thesis
    by (simp add: step_def split: if_splits)
qed

lemma emit_simps [simp]: "trace (emit evs s) = trace s @ evs"
  "pc (emit evs s) = pc s" "self (emit evs s) = self s" "hb (emit evs s) = hb s"
  "discoveryClient (emit evs s) = discoveryClient s" "actualPort (emit evs s) = actualPort s"
  "ctxDone (emit evs s) = ctxDone s" "heartbeatDone (emit evs s) = heartbeatDone s"
  "tickerC (emit evs s) = tickerC s" "srv (emit evs s) = srv s"
  "serverErr (emit evs s) = serverErr s" "serverErrClosed (emit evs s) = serverErrClosed s"
  by (simp_all add: emit_def)

lemma inv_client_step: "inv_client s \<Longrightarrow> step e s a = Some s' \<Longrightarrow> inv_client s'"
  by (erule step_elim; (erule start_at_elim)?; simp add: inv_client_def)

lemma inv_early_step: "inv_early s \<Longrightarrow> step e s a = Some s' \<Longrightarrow> inv_early s'"
  by (erule step_elim; (erule start_at_elim)?; simp add: inv_early_def)

lemma ev_simps:
  "is_cancel ev = (ev = EvCtxCancelled)" 
  "is_recv_ctx_done ev = (ev = EvRecvCtxDone)"
  "is_recv_closed ev = (ev = EvRecvServerErr None)"
  "is_close_heartbeat_done ev = (ev = EvCloseHeartbeatDone)"
  "is_heartbeat_return ev = (ev = EvHeartbeatLoopReturn)"
  "is_conn_close ev = (ev = EvConnClose)"
  "is_deregister_returned ev = (ev = EvDeregisterReturned)"
  "is_server_shutdown ev = (ev = EvServerShutdown)"
proof -
  show "is_cancel ev = (ev = EvCtxCancelled)" by (cases ev rule: is_cancel.cases; simp)
  show "is_recv_ctx_done ev = (ev = EvRecvCtxDone)" by (cases ev rule: is_recv_ctx_done.cases; simp)
  show "is_recv_closed ev = (ev = EvRecvServerErr None)" by (cases ev rule: is_recv_closed.cases; simp)
  show "is_close_heartbeat_done ev = (ev = EvCloseHeartbeatDone)" by (cases ev rule: is_close_heartbeat_done.cases; simp)
  show "is_heartbeat_return ev = (ev = EvHeartbeatLoopReturn)" by (cases ev rule: is_heartbeat_return.cases; simp)
  show "is_conn_close ev = (ev = EvConnClose)" by (cases ev rule: is_conn_close.cases; simp)
  show "is_deregister_returned ev = (ev = EvDeregisterReturned)" by (cases ev rule: is_deregister_returned.cases; simp)
  show "is_server_shutdown ev = (ev = EvServerShutdown)" by (cases ev rule: is_server_shutdown.cases; simp)
qed

lemma register_fst:
  "fst (register o' e p) = EvRegister (registerRequest o' p) #
     (if snd (register o' e p) = None then [EvLog LevelInfo ''registered with discovery''] else [])"
  by (simp add: register_def Let_def split: sum.splits)

lemma logs_simps [simp]:
  assumes "list_all is_log logs"
  shows "\<not> list_ex is_heartbeat logs" "\<not> list_ex is_degraded logs" "\<not> list_ex is_deregister logs"
    "\<not> list_ex is_register logs" "\<not> list_ex is_cancel logs" "\<not> list_ex is_recv_ctx_done logs"
    "\<not> list_ex is_recv_closed logs" "\<not> list_ex is_close_heartbeat_done logs"
    "\<not> list_ex is_heartbeat_return logs" "\<not> list_ex is_conn_close logs"
    "\<not> list_ex is_deregister_returned logs" "\<not> list_ex is_server_shutdown logs"
proof -
  have "\<not> list_ex P logs" if "\<And>l m. \<not> P (EvLog l m)" for P
    using assms that
  proof (induction logs)
    case Nil
    then show ?case by simp
  next
    case (Cons x xs)
    then show ?case by (cases x) simp_all
  qed
  from this [of is_heartbeat] this [of is_degraded] this [of is_deregister] this [of is_register]
    this [of is_cancel] this [of is_recv_ctx_done] this [of is_recv_closed]
    this [of is_close_heartbeat_done] this [of is_heartbeat_return] this [of is_conn_close]
    this [of is_deregister_returned] this [of is_server_shutdown]
  show "\<not> list_ex is_heartbeat logs" "\<not> list_ex is_degraded logs" "\<not> list_ex is_deregister logs"
    "\<not> list_ex is_register logs" "\<not> list_ex is_cancel logs" "\<not> list_ex is_recv_ctx_done logs"
    "\<not> list_ex is_recv_closed logs" "\<not> list_ex is_close_heartbeat_done logs"
    "\<not> list_ex is_heartbeat_return logs" "\<not> list_ex is_conn_close logs"
    "\<not> list_ex is_deregister_returned logs" "\<not> list_ex is_server_shutdown logs"
    by simp_all
qed

lemma inv_hb_step: "inv_early s \<Longrightarrow> inv_hb s \<Longrightarrow> step e s a = Some s' \<Longrightarrow> inv_hb s'"
  by (erule step_elim; (erule start_at_elim)?; simp add: inv_hb_def inv_early_def register_fst ev_simps; fast)

lemma inv_shut_step:
  "inv_client s \<Longrightarrow> inv_hb s \<Longrightarrow> inv_shut s \<Longrightarrow> step e s a = Some s' \<Longrightarrow> inv_shut s'"
  by (erule step_elim; (erule start_at_elim)?; simp add: inv_shut_def inv_client_def inv_hb_def register_fst ev_simps; fast)

lemma precedes_append:
  "precedes P Q (xs @ ys) = (if list_ex P xs then precedes P Q xs else \<not> list_ex Q xs \<and> precedes P Q ys)"
  by (induction xs) auto

lemma none_after_append:
  "none_after P Q (xs @ ys) =
     (if list_ex P xs then none_after P Q xs \<and> \<not> list_ex Q ys else none_after P Q ys)"
  by (induction xs) auto

lemma precedes_absent: "\<not> list_ex Q xs \<Longrightarrow> precedes P Q xs"
  by (induction xs) auto

lemma precedes_occurs: "precedes P Q xs \<Longrightarrow> list_ex Q xs \<Longrightarrow> list_ex P xs"
  by (induction xs) (auto split: if_splits)

lemma precedes_snoc:
  "precedes P Q tr \<Longrightarrow> precedes P Q (tr @ evs) = (list_ex P tr \<or> precedes P Q evs)"
  using precedes_occurs [of P Q tr] by (auto simp: precedes_append)

lemma none_after_snoc:
  "none_after P Q tr \<Longrightarrow>
   none_after P Q (tr @ evs) = (if list_ex P tr then \<not> list_ex Q evs else none_after P Q evs)"
  by (simp add: none_after_append)

lemma inv_spawn_step: "inv_client s \<Longrightarrow> inv_spawn s \<Longrightarrow> step e s a = Some s' \<Longrightarrow> inv_spawn s'"
  by (erule step_elim; (erule start_at_elim)?; simp add: inv_spawn_def inv_client_def; fast)

lemma inv_base_step: "inv_base s \<Longrightarrow> step e s a = Some s' \<Longrightarrow> inv_base s'"
  unfolding inv_base_def
  using inv_client_step inv_early_step inv_hb_step inv_shut_step inv_spawn_step by blast

lemma inv_base_init: "inv_base (start_init svc)"
  by (simp add: inv_base_def inv_client_def inv_early_def inv_hb_def inv_shut_def inv_spawn_def
      start_init_def)

lemma start_invariant:
  assumes "start svc e sched = Some s" and "I (start_init svc)"
    and "\<And>s a s'. inv_base s \<Longrightarrow> I s \<Longrightarrow> step e s a = Some s' \<Longrightarrow> I s'"
  shows "inv_base s \<and> I s"
  using assms(1) unfolding start_def
  by (rule run_invariant [where I = "\<lambda>s. inv_base s \<and> I s"])
     (auto simp: inv_base_init assms(2) intro: inv_base_step assms(3))

lemma ord_degraded_deregister_step:
  "inv_base s \<Longrightarrow> precedes is_degraded is_deregister (trace s) \<Longrightarrow> step e s a = Some s'
   \<Longrightarrow> precedes is_degraded is_deregister (trace s')"
  by (erule step_elim; (erule start_at_elim)?; simp add: precedes_snoc register_fst;
      simp add: inv_base_def inv_shut_def inv_client_def)

lemma ord_deregister_close_step:
  "inv_base s \<Longrightarrow> AutoRegister (opts (self s)) \<longrightarrow> precedes is_deregister is_conn_close (trace s)
   \<Longrightarrow> step e s a = Some s'
   \<Longrightarrow> AutoRegister (opts (self s')) \<longrightarrow> precedes is_deregister is_conn_close (trace s')"
  by (erule step_elim; (erule start_at_elim)?; simp add: precedes_snoc register_fst;
      simp add: inv_base_def inv_shut_def inv_client_def)

lemma ord_degraded_close_step:
  "inv_base s \<Longrightarrow> AutoRegister (opts (self s)) \<longrightarrow> precedes is_degraded is_conn_close (trace s)
   \<Longrightarrow> step e s a = Some s'
   \<Longrightarrow> AutoRegister (opts (self s')) \<longrightarrow> precedes is_degraded is_conn_close (trace s')"
  by (erule step_elim; (erule start_at_elim)?; simp add: precedes_snoc register_fst;
      simp add: inv_base_def inv_shut_def inv_client_def)

lemma none_after_absent: "\<not> list_ex P xs \<Longrightarrow> none_after P Q xs"
  by (induction xs) auto

lemma none_after_clean: "\<not> list_ex Q xs \<Longrightarrow> none_after P Q xs"
  by (induction xs) auto

lemma closed_not_select:
  "inv_base s \<Longrightarrow> list_ex is_conn_close (trace s) \<Longrightarrow> hb s = HBReturned \<or> hb s = HBNotStarted"
  by (simp add: inv_base_def inv_shut_def inv_hb_def)

lemma ord_done_close_step:
  "inv_base s \<Longrightarrow> precedes is_close_heartbeat_done is_conn_close (trace s) \<Longrightarrow> step e s a = Some s'
   \<Longrightarrow> precedes is_close_heartbeat_done is_conn_close (trace s')"
  by (erule step_elim; (erule start_at_elim)?; simp add: precedes_snoc register_fst precedes_absent;
      simp add: inv_base_def inv_hb_def)

lemma ord_cancel_return_step:
  "inv_base s \<Longrightarrow> precedes is_cancel is_heartbeat_return (trace s) \<Longrightarrow> step e s a = Some s'
   \<Longrightarrow> precedes is_cancel is_heartbeat_return (trace s')"
  by (erule step_elim; (erule start_at_elim)?; simp add: precedes_snoc register_fst precedes_absent;
      simp add: inv_base_def inv_hb_def)

lemma select_facts:
  assumes "inv_base s" and "hb s = HBSelect \<or> hb s = HBInCall \<or> hb s = HBSpawned"
  shows "\<not> list_ex is_close_heartbeat_done (trace s)" "\<not> list_ex is_conn_close (trace s)"
    "\<not> heartbeatDone s"
proof -
  from assms show d: "\<not> heartbeatDone s"
    by (auto simp: inv_base_def inv_hb_def)
  with assms show "\<not> list_ex is_close_heartbeat_done (trace s)"
    by (simp add: inv_base_def inv_hb_def)
  from assms d have "\<not> 12 \<le> rank (pc s)"
    by (simp add: inv_base_def inv_hb_def)
  with assms show "\<not> list_ex is_conn_close (trace s)"
    by (auto simp: inv_base_def inv_shut_def)
qed

lemma conn_close_facts:
  assumes "inv_base s" and "pc s = MConnClose"
  shows "list_ex is_close_heartbeat_done (trace s)"
    "HeartbeatEnabled (opts (self s)) \<Longrightarrow> list_ex is_heartbeat_return (trace s)"
    "AutoRegister (opts (self s)) \<Longrightarrow> list_ex is_deregister (trace s)"
    "AutoRegister (opts (self s)) \<Longrightarrow> list_ex is_degraded (trace s)"
proof -
  from assms have d: "heartbeatDone s"
    by (simp add: inv_base_def inv_hb_def)
  with assms show "list_ex is_close_heartbeat_done (trace s)"
    by (simp add: inv_base_def inv_hb_def)
  show "list_ex is_heartbeat_return (trace s)" if "HeartbeatEnabled (opts (self s))"
  proof -
    from assms that have "hb s \<noteq> HBNotStarted"
      by (simp add: inv_base_def inv_spawn_def)
    with assms d have "hb s = HBReturned"
      by (auto simp: inv_base_def inv_hb_def)
    with assms show ?thesis
      by (simp add: inv_base_def inv_hb_def)
  qed
  from assms show "list_ex is_deregister (trace s)" if "AutoRegister (opts (self s))"
    using that by (simp add: inv_base_def inv_shut_def)
  from assms show "list_ex is_degraded (trace s)" if "AutoRegister (opts (self s))"
    using that by (simp add: inv_base_def inv_shut_def)
qed

lemma ord_return_close_step:
  "inv_base s \<Longrightarrow> HeartbeatEnabled (opts (self s)) \<longrightarrow> precedes is_heartbeat_return is_conn_close (trace s)
   \<Longrightarrow> step e s a = Some s'
   \<Longrightarrow> HeartbeatEnabled (opts (self s')) \<longrightarrow> precedes is_heartbeat_return is_conn_close (trace s')"
  by (erule step_elim; (erule start_at_elim)?;
      simp add: precedes_snoc register_fst precedes_absent conn_close_facts)

lemma ord_no_heartbeat_after_done_step:
  "inv_base s \<Longrightarrow> none_after is_close_heartbeat_done is_heartbeat (trace s) \<Longrightarrow> step e s a = Some s'
   \<Longrightarrow> none_after is_close_heartbeat_done is_heartbeat (trace s')"
  by (erule step_elim; (erule start_at_elim)?;
      simp add: none_after_snoc register_fst none_after_clean select_facts)

lemma ord_no_heartbeat_after_close_step:
  "inv_base s \<Longrightarrow> none_after is_conn_close is_heartbeat (trace s) \<Longrightarrow> step e s a = Some s'
   \<Longrightarrow> none_after is_conn_close is_heartbeat (trace s')"
  by (erule step_elim; (erule start_at_elim)?;
      simp add: none_after_snoc register_fst none_after_clean select_facts)

lemma select_pc_facts:
  assumes "inv_base s" and "pc s = MSelect"
  shows "\<not> list_ex is_degraded (trace s)" "\<not> list_ex is_deregister (trace s)"
  using assms by (auto simp: inv_base_def inv_shut_def)

lemma recv_facts:
  assumes "inv_base s" and "list_ex is_recv_ctx_done (trace s)"
  shows "list_ex is_cancel (trace s)"
  using assms by (simp add: inv_base_def inv_shut_def)

lemma ord_cancel_degraded_step:
  "inv_base s \<Longrightarrow> list_ex is_recv_ctx_done (trace s) \<longrightarrow> precedes is_cancel is_degraded (trace s)
   \<Longrightarrow> step e s a = Some s'
   \<Longrightarrow> list_ex is_recv_ctx_done (trace s') \<longrightarrow> precedes is_cancel is_degraded (trace s')"
  by (erule step_elim; (erule start_at_elim)?;
      simp add: precedes_append register_fst precedes_absent select_pc_facts recv_facts)

lemma ord_cancel_deregister_step:
  "inv_base s \<Longrightarrow> list_ex is_recv_ctx_done (trace s) \<longrightarrow> precedes is_cancel is_deregister (trace s)
   \<Longrightarrow> step e s a = Some s'
   \<Longrightarrow> list_ex is_recv_ctx_done (trace s') \<longrightarrow> precedes is_cancel is_deregister (trace s')"
  by (erule step_elim; (erule start_at_elim)?;
      simp add: precedes_append register_fst precedes_absent select_pc_facts recv_facts)

lemma step_opts: "step e s a = Some s' \<Longrightarrow> opts (self s') = opts (self s)"
  by (erule step_elim; (erule start_at_elim)?; simp)

lemma start_opts:
  assumes "start svc e sched = Some s"
  shows "opts (self s) = opts svc"
  using assms unfolding start_def
  by (rule run_invariant [where I = "\<lambda>s. opts (self s) = opts svc"])
     (simp_all add: start_init_def step_opts)

lemma start_base: "start svc e sched = Some s \<Longrightarrow> inv_base s"
  using start_invariant [where I = "\<lambda>s. True"] by blast

subsection \<open>The metadata builder\<close>

text \<open>
  C3, as stated: the built metadata contains the key \<^verbatim>\<open>weight\<close> exactly when the routing
  weight is positive. This fails: with weight 0 and a user entry \<^verbatim>\<open>weight = 99\<close>, the built
  metadata still has the key \<^verbatim>\<open>weight\<close>, since the builder never removes a user entry.
\<close>

theorem buildMetadata_weight_iff_positive_counterexample:
  "\<not> ((''weight'' \<in> dom (buildMetadata opts_user_weight)) = (0 < Weight (Routing opts_user_weight)))"
  by (simp add: buildMetadata_def opts_user_weight_def DefaultOptions_def With_defs)

text \<open>
  C3, amended: for every user metadata map and every routing attribute set, the built
  metadata maps \<^verbatim>\<open>scheme\<close>, \<^verbatim>\<open>health_check_endpoint\<close> and \<^verbatim>\<open>lb_strategy\<close> to the values of
  the routing attributes, whatever the user supplied under these keys; it maps \<^verbatim>\<open>weight\<close>
  to the decimal weight when the weight is positive, and otherwise leaves \<^verbatim>\<open>weight\<close> as the
  user supplied it (absent if the user supplied none); every other user entry is copied
  unchanged and no other key is added.
\<close>

theorem buildMetadata_reserved_keys:
  "buildMetadata o' ''scheme'' = Some (Scheme (Routing o'))
   \<and> buildMetadata o' ''health_check_endpoint'' = Some (HealthCheckEndpoint (Routing o'))
   \<and> buildMetadata o' ''lb_strategy'' = Some (Strategy (Routing o'))
   \<and> buildMetadata o' ''weight'' =
       (if 0 < Weight (Routing o') then Some (Itoa (Weight (Routing o'))) else Metadata o' ''weight'')
   \<and> (\<forall>k. k \<notin> {''scheme'', ''health_check_endpoint'', ''lb_strategy'', ''weight''}
          \<longrightarrow> buildMetadata o' k = Metadata o' k)"
  by (simp add: buildMetadata_def Let_def)

theorem buildMetadata_reserved_keys_witness:
  "buildMetadata opts_meta_test ''scheme'' = Some ''https''
   \<and> buildMetadata opts_meta_test ''health_check_endpoint'' = Some ''/health''
   \<and> buildMetadata opts_meta_test ''lb_strategy'' = Some ''WeightedRoundRobin''
   \<and> buildMetadata opts_meta_test ''weight'' = Some ''3''
   \<and> ''env'' \<notin> {''scheme'', ''health_check_endpoint'', ''lb_strategy'', ''weight''}
   \<and> buildMetadata opts_meta_test ''env'' = Some ''prod''"
proof -
  have k: "''env'' \<notin> {''scheme'', ''health_check_endpoint'', ''lb_strategy'', ''weight''}"
    by simp
  have o: "Routing opts_meta_test = \<lparr> Scheme = ''https'', HealthCheckEndpoint = ''/health'',
      Strategy = ''WeightedRoundRobin'', Weight = 3 \<rparr>" "Metadata opts_meta_test ''env'' = Some ''prod''"
    by (simp_all add: opts_meta_test_def DefaultOptions_def With_defs derive_defs WeightedRoundRobin_def)
  from buildMetadata_reserved_keys [of opts_meta_test] k o show ?thesis
    by (simp add: Itoa_3)
qed

text \<open>
  C10: when the routing weight is not positive and the user's metadata has a \<^verbatim>\<open>weight\<close>
  entry, the built metadata keeps the user's value under \<^verbatim>\<open>weight\<close>.
\<close>

theorem buildMetadata_keeps_user_weight:
  assumes "Weight (Routing o') \<le> 0" and "Metadata o' ''weight'' = Some v"
  shows "buildMetadata o' ''weight'' = Some v"
  using assms by (simp add: buildMetadata_def Let_def)

theorem buildMetadata_keeps_user_weight_witness:
  "Weight (Routing opts_user_weight) \<le> 0 \<and> Metadata opts_user_weight ''weight'' = Some ''99''
   \<and> buildMetadata opts_user_weight ''weight'' = Some ''99''"
proof -
  have w: "Weight (Routing opts_user_weight) \<le> 0"
    by (simp add: opts_user_weight_def DefaultOptions_def With_defs)
  have m: "Metadata opts_user_weight ''weight'' = Some ''99''"
    by (simp add: opts_user_weight_def DefaultOptions_def With_defs)
  from buildMetadata_keeps_user_weight [OF w m] w m show ?thesis
    by simp
qed

subsection \<open>The configuration resolver\<close>

text \<open>
  C4: for every sequence of options, \<^verbatim>\<open>New\<close> fails if and only if the service name is empty
  after all options have been applied, and the error is then the
  \<^verbatim>\<open>ServiceName is required\<close> error; no other field is looked at.
\<close>

theorem New_fails_iff_ServiceName_empty:
  "(New now fns = Inl ErrServiceNameRequired) = (ServiceName (applyOptions fns DefaultOptions) = '''')
   \<and> isl (New now fns) = (ServiceName (applyOptions fns DefaultOptions) = '''')"
  by (simp add: New_def Let_def)

text \<open>
  C5: for every sequence of options that leaves the advertised address unset, the
  resolved advertised address is the resolved bind address, which is the bind address
  after the last option; the service id and the routing health-check path are derived
  from the final option values in the same way.
\<close>

theorem New_derives_after_overrides:
  assumes "New now fns = Inr svc"
  shows "(AdvertisedAddress (applyOptions fns DefaultOptions) = ''''
            \<longrightarrow> AdvertisedAddress (opts svc) = Address (opts svc))
       \<and> Address (opts svc) = Address (applyOptions fns DefaultOptions)
       \<and> ServiceID (opts svc) =
           (if ServiceID (applyOptions fns DefaultOptions) = ''''
            then ServiceName (applyOptions fns DefaultOptions) @ ''-'' @ Itoa now
            else ServiceID (applyOptions fns DefaultOptions))
       \<and> HealthCheckEndpoint (Routing (opts svc)) =
           (if HealthCheckEndpoint (Routing (applyOptions fns DefaultOptions)) = ''''
            then HealthEndpoint (applyOptions fns DefaultOptions)
            else HealthCheckEndpoint (Routing (applyOptions fns DefaultOptions)))"
  using assms
  by (auto simp: New_def Let_def derive_defs split: if_splits)

theorem New_derives_after_overrides_witness:
  "New 42 [WithServiceName ''test'', WithAddress ''10.0.0.1''] = Inr svc_adv
   \<and> AdvertisedAddress (applyOptions [WithServiceName ''test'', WithAddress ''10.0.0.1''] DefaultOptions) = ''''
   \<and> AdvertisedAddress (opts svc_adv) = ''10.0.0.1''
   \<and> Address (opts svc_adv) = ''10.0.0.1''"
proof -
  have u: "AdvertisedAddress (applyOptions [WithServiceName ''test'', WithAddress ''10.0.0.1''] DefaultOptions) = ''''"
    "Address (applyOptions [WithServiceName ''test'', WithAddress ''10.0.0.1''] DefaultOptions) = ''10.0.0.1''"
    by (simp_all add: DefaultOptions_def With_defs)
  from New_derives_after_overrides [OF New_svc_adv] u New_svc_adv show ?thesis
    by simp
qed

subsection \<open>Concrete executions\<close>

lemma run_append:
  "run e (xs @ ys) s = (case run e xs s of None \<Rightarrow> None | Some s' \<Rightarrow> run e ys s')"
  by (induction xs arbitrary: s) (simp_all split: option.splits)

lemma start_append:
  "start svc e xs = Some s' \<Longrightarrow> start svc e (xs @ ys) = run e ys s'"
  by (simp add: start_def run_append)

lemma demo_strings:
  "Itoa (Port opts_demo) = ''0''" "Address opts_demo = ''0.0.0.0''"
  "JoinHostPort ''0.0.0.0'' ''0'' = ''0.0.0.0:0''"
  "TCPAddr_String addr_demo = ''0.0.0.0:40123''"
  "fst (Atoi (fst (snd (SplitHostPort ''0.0.0.0:40123'')))) = 40123"
  "DiscoveryAddress opts_demo = ''localhost:8080''"
  "AutoRegister opts_demo" "HeartbeatEnabled opts_demo" "HealthInterval opts_demo = 30 * Second"
  "ServiceID opts_demo = ''svc-42''"
  by code_simp+

lemmas demo_defs = start_def sched_startup_def start_init_def step_def svc_demo_def
  demo_strings register_def emit_def s_serving_def tr_startup_def Second_def

lemma start_demo_serving: "start svc_demo env_ok sched_startup = Some s_serving"
  by (simp add: demo_defs env_ok_def)

lemma start_demo_unreachable:
  "start svc_demo env_register_unreachable sched_startup = Some s_serving_unregistered"
  by (simp add: demo_defs env_ok_def env_register_unreachable_def s_serving_unregistered_def
      tr_startup_unregistered_def wrap_def)

lemma start_demo_rejected:
  "start svc_demo env_register_rejected sched_startup = Some s_serving_unregistered"
  by (simp add: demo_defs env_ok_def env_register_rejected_def s_serving_unregistered_def
      tr_startup_unregistered_def wrap_def)

lemma start_demo_clean: "start svc_demo env_ok sched_clean = Some s_clean"
  unfolding sched_clean_def start_append [OF start_demo_serving]
  by (simp add: step_def emit_def s_serving_def s_clean_def tr_clean_def svc_demo_def demo_strings
      env_ok_def ErrServerClosed_def)

lemma start_demo_race: "start svc_demo env_ok sched_race = Some s_race"
  unfolding sched_race_def start_append [OF start_demo_serving]
  by (simp add: step_def emit_def s_serving_def s_race_def tr_race_def svc_demo_def demo_strings
      env_ok_def)

lemma start_demo_serve_failed: "start svc_demo env_ok sched_serve_fails = Some s_serve_failed"
  unfolding sched_serve_fails_def start_append [OF start_demo_serving]
  by (simp add: step_def emit_def s_serving_def s_serve_failed_def tr_serve_failed_def
      ErrServerClosed_def)

lemma start_demo_serve_failed_unregistered:
  "start svc_demo env_register_unreachable sched_serve_fails = Some s_serve_failed_unregistered"
  unfolding sched_serve_fails_def start_append [OF start_demo_unreachable]
  by (simp add: step_def emit_def s_serving_def s_serve_failed_def s_serve_failed_unregistered_def
      s_serving_unregistered_def ErrServerClosed_def)

subsection \<open>The shutdown sequence\<close>

text \<open>
  C6: in every execution of \<^verbatim>\<open>start\<close> with auto-register enabled, whatever the schedule
  of the heartbeat goroutine and the ticker, no deregister call comes before the
  degraded health report, and the registry connection is not closed before both; when
  \<^verbatim>\<open>start\<close> has returned \<^verbatim>\<open>nil\<close>, all three have happened.
\<close>

theorem shutdown_order:
  assumes "start svc e sched = Some s" and "AutoRegister (opts svc)"
  shows "precedes is_degraded is_deregister (trace s)
       \<and> precedes is_deregister is_conn_close (trace s)
       \<and> precedes is_degraded is_conn_close (trace s)
       \<and> (pc s = MReturned None \<longrightarrow>
            list_ex is_degraded (trace s) \<and> list_ex is_deregister (trace s) \<and> list_ex is_conn_close (trace s))"
proof -
  have o: "opts (self s) = opts svc"
    using assms(1) by (rule start_opts)
  have b: "inv_base s"
    using assms(1) by (rule start_base)
  have 1: "precedes is_degraded is_deregister (trace s)"
    using start_invariant [OF assms(1), where I = "\<lambda>s. precedes is_degraded is_deregister (trace s)"]
      ord_degraded_deregister_step by (simp add: start_init_def)
  have 2: "AutoRegister (opts (self s)) \<longrightarrow> precedes is_deregister is_conn_close (trace s)"
    using start_invariant [OF assms(1),
        where I = "\<lambda>s. AutoRegister (opts (self s)) \<longrightarrow> precedes is_deregister is_conn_close (trace s)"]
      ord_deregister_close_step by (simp add: start_init_def)
  have 3: "AutoRegister (opts (self s)) \<longrightarrow> precedes is_degraded is_conn_close (trace s)"
    using start_invariant [OF assms(1),
        where I = "\<lambda>s. AutoRegister (opts (self s)) \<longrightarrow> precedes is_degraded is_conn_close (trace s)"]
      ord_degraded_close_step by (simp add: start_init_def)
  have 4: "list_ex is_degraded (trace s) \<and> list_ex is_deregister (trace s) \<and> list_ex is_conn_close (trace s)"
    if "pc s = MReturned None"
    using b that assms(2) o by (simp add: inv_base_def inv_shut_def inv_client_def)
  from 1 2 3 4 o assms(2) show ?thesis
    by simp
qed

theorem shutdown_order_witness:
  "start svc_demo env_ok sched_clean = Some s_clean \<and> AutoRegister (opts svc_demo)
   \<and> pc s_clean = MReturned None
   \<and> precedes is_degraded is_deregister (trace s_clean)
   \<and> precedes is_deregister is_conn_close (trace s_clean)
   \<and> precedes is_degraded is_conn_close (trace s_clean)
   \<and> list_ex is_degraded (trace s_clean) \<and> list_ex is_deregister (trace s_clean)
   \<and> list_ex is_conn_close (trace s_clean)"
proof -
  have a: "AutoRegister (opts svc_demo)"
    by (simp add: svc_demo_def demo_strings)
  have p: "pc s_clean = MReturned None"
    by (simp add: s_clean_def)
  from shutdown_order [OF start_demo_clean a] start_demo_clean a p show ?thesis
    by simp
qed

end
